theory Spec2Isabelle
  imports Main "HOL-Library.AList"
begin

section \<open>Python values, types and exceptions\<close>

text \<open>
  The values that reach the configuration code: argument defaults written in the schema,
  the result of \<^verbatim>\<open>json.load\<close> (None, booleans, integers, floats, strings, lists and
  objects with string keys, kept in insertion order) and the strings of \<^verbatim>\<open>sys.argv\<close>.
  A float is kept as mantissa and binary exponent and is never computed with.
\<close>

datatype pyval =
    PNone
  | PBool bool
  | PInt int
  | PFloat int int
  | PStr string
  | PList "pyval list"
  | PDict "(string \<times> pyval) list"

text \<open>Python truthiness: what \<^verbatim>\<open>if v:\<close> and \<^verbatim>\<open>bool(v)\<close> test.\<close>

fun truthy :: "pyval \<Rightarrow> bool" where
  "truthy PNone = False"
| "truthy (PBool b) = b"
| "truthy (PInt i) = (i \<noteq> 0)"
| "truthy (PFloat m e) = (m \<noteq> 0)"
| "truthy (PStr s) = (s \<noteq> [])"
| "truthy (PList xs) = (xs \<noteq> [])"
| "truthy (PDict d) = (d \<noteq> [])"

text \<open>
  The \<^verbatim>\<open>type\<close> argument of \<^verbatim>\<open>add_argument\<close> is a Python class. The code uses it in
  three ways: \<^verbatim>\<open>isinstance(default, type)\<close>, the call \<^verbatim>\<open>type(val)\<close> inside
  \<^verbatim>\<open>try/except Exception\<close> (\<open>None\<close> when the call raises) and \<^verbatim>\<open>type.__name__\<close>.
\<close>

record pytype =
  tname :: string
  isinst :: "pyval \<Rightarrow> bool"
  construct :: "pyval \<Rightarrow> pyval option"

text \<open>The builtin \<^verbatim>\<open>bool\<close>: calling it is the truth test, which never raises.\<close>

definition py_bool :: pytype where
  "py_bool = \<lparr>tname = ''bool'',
     isinst = (\<lambda>v. case v of PBool b \<Rightarrow> True | _ \<Rightarrow> False),
     construct = (\<lambda>v. Some (PBool (truthy v)))\<rparr>"

text \<open>
  The builtin \<^verbatim>\<open>str\<close>: the identity on a string; the text of any other value is left to
  the parameter \<open>to_text\<close> (Python's \<^verbatim>\<open>__str__\<close>). It never raises.
\<close>

definition py_str :: "(pyval \<Rightarrow> string) \<Rightarrow> pytype" where
  "py_str to_text = \<lparr>tname = ''str'',
     isinst = (\<lambda>v. case v of PStr s \<Rightarrow> True | _ \<Rightarrow> False),
     construct = (\<lambda>v. Some (PStr (case v of PStr s \<Rightarrow> s | _ \<Rightarrow> to_text v)))\<rparr>"

text \<open>
  One constructor for each \<^verbatim>\<open>raise\<close> of the two classes, named after the error kinds of
  the specification, and one for each way the interpreter itself raises on the paths that
  are followed. In Python, \<open>DeclTypeConflict\<close>, \<open>FrozenConfig\<close>, \<open>LockedConfig\<close> and
  \<open>TypeCoercion\<close> are \<^verbatim>\<open>TypeError\<close>; \<open>DeclValidationConflict\<close>, \<open>UnknownSubconfig\<close>,
  \<open>UnknownArgument\<close> and \<open>ValidationFailed\<close> are \<^verbatim>\<open>ValueError\<close>; \<open>ReservedName\<close> and
  \<open>InvalidArgumentName\<close> are plain \<^verbatim>\<open>Exception\<close>. \<open>PyUnpackError\<close> is the \<^verbatim>\<open>ValueError\<close> of
  a failed tuple unpacking, \<open>FileError\<close> whatever \<^verbatim>\<open>open\<close> or \<^verbatim>\<open>json.load\<close> raises,
  \<open>ValidatorRaised\<close> whatever a validation callable raises, and \<open>NonConfigTarget\<close> the
  \<^verbatim>\<open>ValueError\<close> or \<^verbatim>\<open>AttributeError\<close> of an override aimed at an attribute of the root
  that is not a subconfig. \<open>Unsupported\<close> marks a path the model does not follow.
\<close>

datatype error =
    DeclTypeConflict string
  | DeclValidationConflict string
  | ReservedName string
  | FrozenConfig
  | LockedConfig string
  | UnknownSubconfig string
  | UnknownArgument string string
  | InvalidArgumentName string
  | TypeCoercion string string
  | ValidationFailed string string
  | PyKeyError string
  | PyAttributeError string
  | PyTypeError
  | PyUnpackError string
  | FileError string
  | ValidatorRaised
  | NonConfigTarget string
  | Unsupported

text \<open>Sequencing of a step that may raise with what follows it.\<close>

definition and_then :: "error + 'a \<Rightarrow> ('a \<Rightarrow> error + 'b) \<Rightarrow> error + 'b" where
  "and_then m f = (case m of Inl e \<Rightarrow> Inl e | Inr x \<Rightarrow> f x)"

section \<open>BaseConfig (base\_config.py)\<close>

text \<open>
  An entry of \<^verbatim>\<open>arg_dict\<close> is the dictionary \<^verbatim>\<open>{"type": type, "validation": validation}\<close>.
  A validation predicate returns \<open>None\<close> when the Python callable raises, otherwise the
  truth value of what it returns.
\<close>

record argspec =
  arg_type :: pytype
  arg_validation :: "(pyval \<Rightarrow> bool option) option"

text \<open>
  An instance of \<^verbatim>\<open>BaseConfig\<close> or of a subclass.
  \<^item> \<open>arg_dict\<close>, \<open>help_dict\<close>: the two dictionaries created by \<^verbatim>\<open>__init__\<close>, in insertion
    order. An \<open>arg_dict\<close> entry is \<open>None\<close> where the code stores Python's None
    (\<^verbatim>\<open>subcfg.arg_dict[arg_name] = None\<close>).
  \<^item> \<open>attrs\<close>: every other entry of the instance's \<^verbatim>\<open>__dict__\<close>: the argument values and,
    once assigned, \<^verbatim>\<open>locked\<close> and \<^verbatim>\<open>frozen\<close>.
  \<^item> \<open>class_attrs\<close>: the names found on the instance's class apart from the five public
    names of \<^verbatim>\<open>BaseConfig\<close>: double-underscore names and whatever a subclass defines.
  An assignment to the name \<^verbatim>\<open>arg_dict\<close> or \<^verbatim>\<open>help_dict\<close> is recorded in \<open>attrs\<close>; from then
  on a read of that dictionary is outside the model and gives \<open>Unsupported\<close>.
\<close>

record BaseConfig =
  arg_dict :: "(string \<times> argspec option) list"
  help_dict :: "(string \<times> string) list"
  attrs :: "string \<rightharpoonup> pyval"
  class_attrs :: "string list"

definition BaseConfig_reserved_attributes :: "string list" where
  "BaseConfig_reserved_attributes =
     [''arg_dict'', ''help_dict'', ''locked'', ''frozen'', ''add_argument'', ''to_dict'',
      ''reserved_attributes'']"

text \<open>\<^verbatim>\<open>BaseConfig.__init__\<close>, for a class with the given extra class-level names.\<close>

definition BaseConfig_init :: "string list \<Rightarrow> BaseConfig" where
  "BaseConfig_init names =
     \<lparr>arg_dict = [], help_dict = [], attrs = Map.empty, class_attrs = names\<rparr>"

text \<open>
  \<^verbatim>\<open>self.locked\<close> and \<^verbatim>\<open>self.frozen\<close>: the instance attribute when one was assigned, the
  class attribute \<^verbatim>\<open>False\<close> otherwise.
\<close>

definition get_locked :: "BaseConfig \<Rightarrow> pyval" where
  "get_locked self = (case attrs self ''locked'' of Some v \<Rightarrow> v | None \<Rightarrow> PBool False)"

definition get_frozen :: "BaseConfig \<Rightarrow> pyval" where
  "get_frozen self = (case attrs self ''frozen'' of Some v \<Rightarrow> v | None \<Rightarrow> PBool False)"

text \<open>
  \<^verbatim>\<open>hasattr(self, key)\<close>, which is also \<^verbatim>\<open>key in dir(self)\<close>: an instance attribute or a name
  defined on the class.
\<close>

definition hasattr :: "BaseConfig \<Rightarrow> string \<Rightarrow> bool" where
  "hasattr self key =
     (case attrs self key of
        Some v \<Rightarrow> True
      | None \<Rightarrow>
          key \<in> set [''arg_dict'', ''help_dict'']
          \<or> key \<in> set [''locked'', ''frozen'', ''reserved_attributes'', ''add_argument'', ''to_dict'']
          \<or> key \<in> set (class_attrs self))"

text \<open>\<^verbatim>\<open>BaseConfig.__setattr__\<close>: three checks in the order of the source, then the store.\<close>

definition BaseConfig_setattr :: "BaseConfig \<Rightarrow> string \<Rightarrow> pyval \<Rightarrow> error + BaseConfig" where
  "BaseConfig_setattr self key val =
     (if key \<in> set BaseConfig_reserved_attributes \<and> truthy (get_locked self) \<and> key \<noteq> ''frozen''
      then Inl (ReservedName key)
      else if truthy (get_frozen self) then Inl FrozenConfig
      else if truthy (get_locked self) \<and> \<not> hasattr self key then Inl (LockedConfig key)
      else Inr (self\<lparr>attrs := (attrs self)(key \<mapsto> val)\<rparr>))"

text \<open>Reading \<^verbatim>\<open>self.arg_dict\<close> and \<^verbatim>\<open>self.help_dict\<close>.\<close>

definition get_arg_dict :: "BaseConfig \<Rightarrow> error + (string \<times> argspec option) list" where
  "get_arg_dict self =
     (if attrs self ''arg_dict'' = None then Inr (arg_dict self) else Inl Unsupported)"

definition get_help_dict :: "BaseConfig \<Rightarrow> error + (string \<times> string) list" where
  "get_help_dict self =
     (if attrs self ''help_dict'' = None then Inr (help_dict self) else Inl Unsupported)"

text \<open>
  \<^verbatim>\<open>getattr(self, name)\<close> for a value: the instance attribute, else the class defaults of
  \<^verbatim>\<open>locked\<close> and \<^verbatim>\<open>frozen\<close>; the other class-level objects (methods, the reserved list,
  the two dictionaries) are not values of the model.
\<close>

definition BaseConfig_getattr :: "BaseConfig \<Rightarrow> string \<Rightarrow> error + pyval" where
  "BaseConfig_getattr self name =
     (case attrs self name of
        Some v \<Rightarrow> Inr v
      | None \<Rightarrow>
          if name = ''locked'' \<or> name = ''frozen'' then Inr (PBool False)
          else if hasattr self name then Inl Unsupported
          else Inl (PyAttributeError name))"

text \<open>
  \<^verbatim>\<open>BaseConfig.add_argument\<close>. The default \<^verbatim>\<open>None\<close> and the string \<^verbatim>\<open>"none"\<close> skip both checks.
\<close>

definition add_argument ::
  "BaseConfig \<Rightarrow> string \<Rightarrow> pytype \<Rightarrow> pyval \<Rightarrow> string \<Rightarrow> (pyval \<Rightarrow> bool option) option
     \<Rightarrow> error + BaseConfig" where
  "add_argument self name type dflt help validation =
     (if \<not> isinst type dflt \<and> dflt \<noteq> PNone \<and> dflt \<noteq> PStr ''none''
      then Inl (DeclTypeConflict name)
      else
        and_then
          (case validation of
             None \<Rightarrow> Inr ()
           | Some check \<Rightarrow>
               if dflt \<noteq> PNone \<and> dflt \<noteq> PStr ''none'' then
                 (case check dflt of
                    None \<Rightarrow> Inl ValidatorRaised
                  | Some ok \<Rightarrow> if \<not> ok then Inl (DeclValidationConflict name) else Inr ())
               else Inr ())
          (\<lambda>_. and_then (BaseConfig_setattr self name dflt)
          (\<lambda>self1. and_then (get_arg_dict self1)
          (\<lambda>ad. and_then (get_help_dict self1)
          (\<lambda>hd. Inr (self1\<lparr>
                   arg_dict := AList.update name
                     (Some \<lparr>arg_type = type, arg_validation = validation\<rparr>) ad,
                   help_dict := AList.update name help hd\<rparr>))))))"

text \<open>\<^verbatim>\<open>BaseConfig.to_dict\<close>: every key of \<^verbatim>\<open>arg_dict\<close> with the attribute of that name.\<close>

fun collect_attrs ::
  "BaseConfig \<Rightarrow> (string \<times> pyval) list \<Rightarrow> string list \<Rightarrow> error + (string \<times> pyval) list" where
  "collect_attrs self acc [] = Inr acc"
| "collect_attrs self acc (k # ks) =
     and_then (BaseConfig_getattr self k)
       (\<lambda>v. collect_attrs self (AList.update k v acc) ks)"

definition BaseConfig_to_dict :: "BaseConfig \<Rightarrow> error + (string \<times> pyval) list" where
  "BaseConfig_to_dict self =
     and_then (get_arg_dict self) (\<lambda>ad. collect_attrs self [] (map fst ad))"

text \<open>
  \<^verbatim>\<open>MainBase.__validate_arg\<close>: the declared type is called on the value, then the
  validation predicate, when there is one, is asked about the converted value.
\<close>

definition validate_arg :: "string \<Rightarrow> BaseConfig \<Rightarrow> string \<Rightarrow> pyval \<Rightarrow> error + pyval" where
  "validate_arg subcfg_name subcfg arg_name val =
     and_then (get_arg_dict subcfg)
       (\<lambda>ad. case map_of ad arg_name of
          None \<Rightarrow> Inl (PyKeyError arg_name)
        | Some None \<Rightarrow> Inl PyTypeError
        | Some (Some spec) \<Rightarrow>
            (case construct (arg_type spec) val of
               None \<Rightarrow> Inl (TypeCoercion subcfg_name arg_name)
             | Some val' \<Rightarrow>
                 (case arg_validation spec of
                    None \<Rightarrow> Inr val'
                  | Some check \<Rightarrow>
                      (case check val' of
                         None \<Rightarrow> Inl ValidatorRaised
                       | Some ok \<Rightarrow>
                           if \<not> ok then Inl (ValidationFailed subcfg_name arg_name)
                           else Inr val'))))"

section \<open>Strings, paths and the outside world\<close>

text \<open>\<^verbatim>\<open>s.startswith(p)\<close> and the substring test \<^verbatim>\<open>sub in s\<close>.\<close>

fun starts_with :: "string \<Rightarrow> string \<Rightarrow> bool" where
  "starts_with [] s = True"
| "starts_with (p # ps) [] = False"
| "starts_with (p # ps) (c # cs) = (p = c \<and> starts_with ps cs)"

fun str_in :: "string \<Rightarrow> string \<Rightarrow> bool" where
  "str_in sub [] = (sub = [])"
| "str_in sub (c # cs) = (starts_with sub (c # cs) \<or> str_in sub cs)"

text \<open>
  \<^verbatim>\<open>s.split(sep)\<close> for a non-empty separator: the pieces between the occurrences of
  \<open>sep\<close>, found from the left; \<open>cur\<close> is the piece being read.
\<close>

fun split_from :: "string \<Rightarrow> string \<Rightarrow> string \<Rightarrow> string list" where
  "split_from sep cur [] = [cur]"
| "split_from sep cur (c # cs) =
     (if sep \<noteq> [] \<and> starts_with sep (c # cs)
      then cur # split_from sep [] (drop (length sep - 1) cs)
      else split_from sep (cur @ [c]) cs)"

definition py_split :: "string \<Rightarrow> string \<Rightarrow> string list" where
  "py_split sep s = split_from sep [] s"

text \<open>\<^verbatim>\<open>s.split(c, 1)\<close>: cut at the first \<open>c\<close>; one piece when there is none.\<close>

fun split_once :: "char \<Rightarrow> string \<Rightarrow> string \<Rightarrow> string list" where
  "split_once sep cur [] = [cur]"
| "split_once sep cur (c # cs) =
     (if c = sep then [cur, cs] else split_once sep (cur @ [c]) cs)"

definition split1 :: "char \<Rightarrow> string \<Rightarrow> string list" where
  "split1 sep s = split_once sep [] s"

text \<open>\<^verbatim>\<open>s.rsplit(c, 1)\<close>: cut at the last \<open>c\<close>; one piece when there is none.\<close>

definition rsplit1 :: "char \<Rightarrow> string \<Rightarrow> string list" where
  "rsplit1 sep s =
     (case split1 sep (rev s) of
        [a, b] \<Rightarrow> [rev b, rev a]
      | _ \<Rightarrow> [s])"

text \<open>\<^verbatim>\<open>os.path.join(a, b)\<close> on a POSIX system, for a relative \<open>b\<close>.\<close>

definition os_path_join :: "string \<Rightarrow> string \<Rightarrow> string" where
  "os_path_join a b =
     (if a = [] then b else if last a = CHR ''/'' then a @ b else a @ ''/'' @ b)"

text \<open>
  \<^verbatim>\<open>sorted\<close> on names, as \<^verbatim>\<open>dir\<close> returns them: characters compare by code, a proper
  prefix comes first.
\<close>

fun str_le :: "string \<Rightarrow> string \<Rightarrow> bool" where
  "str_le [] t = True"
| "str_le (c # cs) [] = False"
| "str_le (c # cs) (d # ds) =
     ((of_char c :: nat) < of_char d \<or> (c = d \<and> str_le cs ds))"

fun insert_sorted :: "string \<Rightarrow> string list \<Rightarrow> string list" where
  "insert_sorted x [] = [x]"
| "insert_sorted x (y # ys) = (if str_le x y then x # y # ys else y # insert_sorted x ys)"

definition py_sorted :: "string list \<Rightarrow> string list" where
  "py_sorted xs = foldr insert_sorted xs []"

text \<open>
  What \<^verbatim>\<open>build\<close> reads from and asks of its environment.
  \<^item> \<open>files p\<close>: the result of \<^verbatim>\<open>json.load\<close> on the file at \<open>p\<close>, \<open>None\<close> when opening or
    decoding it raises. An object is a \<open>PDict\<close> whose keys are distinct.
  \<^item> \<open>today\<close>: \<^verbatim>\<open>datetime.today().strftime("%Y-%m-%d")\<close>.
  \<^item> \<open>object_attrs\<close>: the class-level names of a plain \<^verbatim>\<open>BaseConfig()\<close> apart from its five
    public ones.
  \<^item> \<open>allocate d e\<close>: the directory returned by
    \<^verbatim>\<open>SessionSaver.configure_save_dir_and_run_id(d, e)\<close>, \<open>None\<close> when it raises.
  \<^item> \<open>writable p\<close>: whether the file at \<open>p\<close> can be opened for writing and written.
\<close>

record world =
  files :: "string \<Rightarrow> pyval option"
  today :: string
  object_attrs :: "string list"
  allocate :: "string \<Rightarrow> string \<Rightarrow> string option"
  writable :: "string \<Rightarrow> bool"

section \<open>Subconfig classes\<close>

text \<open>
  A subclass of \<^verbatim>\<open>BaseConfig\<close> as the examples write it: \<^verbatim>\<open>__init__\<close> calls
  \<^verbatim>\<open>super().__init__()\<close> and then \<^verbatim>\<open>add_argument\<close> once for each declaration, in order.
\<close>

record decl =
  d_name :: string
  d_type :: pytype
  d_default :: pyval
  d_help :: string
  d_validation :: "(pyval \<Rightarrow> bool option) option"

record cfg_class =
  decls :: "decl list"
  class_names :: "string list"

fun run_decls :: "BaseConfig \<Rightarrow> decl list \<Rightarrow> error + BaseConfig" where
  "run_decls self [] = Inr self"
| "run_decls self (d # ds) =
     and_then (add_argument self (d_name d) (d_type d) (d_default d) (d_help d) (d_validation d))
       (\<lambda>self1. run_decls self1 ds)"

definition instantiate :: "cfg_class \<Rightarrow> error + BaseConfig" where
  "instantiate c = run_decls (BaseConfig_init (class_names c)) (decls c)"

section \<open>MainBase (main\_base.py)\<close>

text \<open>
  What an attribute of the root object holds: a plain value, a list of names (the private
  list of subconfig names), a subconfig class (before \<^verbatim>\<open>build\<close>) or a subconfig instance.
  The root is its instance \<^verbatim>\<open>__dict__\<close>, with the private names in their mangled form
  \<^verbatim>\<open>_MainBase__frozen\<close>, \<^verbatim>\<open>_MainBase__dont_save\<close>, \<^verbatim>\<open>_MainBase__eval\<close> and
  \<^verbatim>\<open>_MainBase__subconfigs\<close>. The subclass of \<^verbatim>\<open>MainBase\<close> defines \<^verbatim>\<open>__init__\<close> only, so every
  class-level name of the root holds two underscores or is one of \<^verbatim>\<open>reserved_attributes\<close>,
  \<^verbatim>\<open>build\<close>, \<^verbatim>\<open>to_dict\<close>.
\<close>

datatype rval = RVal pyval | RNames "string list" | RClass cfg_class | RSub BaseConfig

type_synonym MainBase = "(string \<times> rval) list"

definition MainBase_reserved_attributes :: "string list" where
  "MainBase_reserved_attributes =
     [''reserved_attributes'', ''build'', ''to_dict'', ''prog'', ''description'']"

fun rtruthy :: "rval \<Rightarrow> bool" where
  "rtruthy (RVal v) = truthy v"
| "rtruthy (RNames xs) = (xs \<noteq> [])"
| "rtruthy (RClass c) = True"
| "rtruthy (RSub s) = True"

text \<open>
  Reading one of the private flags \<^verbatim>\<open>self.__frozen\<close>, \<^verbatim>\<open>self.__dont_save\<close>, \<^verbatim>\<open>self.__eval\<close>
  in a condition: the instance attribute of the mangled name, else the class attribute
  \<^verbatim>\<open>False\<close>.
\<close>

definition private_flag :: "MainBase \<Rightarrow> string \<Rightarrow> bool" where
  "private_flag self name = (case map_of self name of Some v \<Rightarrow> rtruthy v | None \<Rightarrow> False)"

text \<open>\<^verbatim>\<open>MainBase.__setattr__\<close>: it tests \<^verbatim>\<open>self.__frozen\<close>, that is \<^verbatim>\<open>_MainBase__frozen\<close>.\<close>

definition MainBase_setattr :: "MainBase \<Rightarrow> string \<Rightarrow> rval \<Rightarrow> error + MainBase" where
  "MainBase_setattr self key val =
     (if private_flag self ''_MainBase__frozen'' then Inl FrozenConfig
      else Inr (AList.update key val self))"

text \<open>
  \<^verbatim>\<open>MainBase.__init__\<close>: the two assignments pass \<^verbatim>\<open>__setattr__\<close>, since nothing is set yet.
\<close>

definition MainBase_init :: "string \<Rightarrow> string \<Rightarrow> MainBase" where
  "MainBase_init prog description =
     [(''prog'', RVal (PStr prog)), (''description'', RVal (PStr description))]"

text \<open>Reading the list \<^verbatim>\<open>self.__subconfigs\<close>.\<close>

definition get_subconfigs :: "MainBase \<Rightarrow> error + string list" where
  "get_subconfigs self =
     (case map_of self ''_MainBase__subconfigs'' of
        Some (RNames xs) \<Rightarrow> Inr xs
      | Some _ \<Rightarrow> Inl PyTypeError
      | None \<Rightarrow> Inl (PyAttributeError ''_MainBase__subconfigs''))"

text \<open>
  \<^verbatim>\<open>getattr(self, name)\<close> where the code goes on to use the result as a subconfig. A name
  that is absent from the instance and cannot be a class-level name raises
  \<^verbatim>\<open>AttributeError\<close>.
\<close>

definition get_subconfig :: "MainBase \<Rightarrow> string \<Rightarrow> error + BaseConfig" where
  "get_subconfig self name =
     (case map_of self name of
        Some (RSub s) \<Rightarrow> Inr s
      | Some _ \<Rightarrow> Inl (NonConfigTarget name)
      | None \<Rightarrow>
          if str_in ''__'' name \<or> name \<in> set [''reserved_attributes'', ''build'', ''to_dict'']
          then Inl (NonConfigTarget name)
          else Inl (PyAttributeError name))"

subsection \<open>Step 1: save directory and experiment name\<close>

text \<open>
  \<^verbatim>\<open>__set_save_dir_experiment_name\<close>: the loop keeps the last token holding
  \<^verbatim>\<open>save_dir\<close>, the last one holding \<^verbatim>\<open>experiment_name\<close> and the list of the others.
\<close>

fun scan_save_dir ::
  "string list \<Rightarrow> string list \<times> string \<times> string \<Rightarrow> string list \<times> string \<times> string" where
  "scan_save_dir [] acc = acc"
| "scan_save_dir (arg # args) (new_args, save_dir, experiment_name) =
     (if str_in ''save_dir'' arg then scan_save_dir args (new_args, arg, experiment_name)
      else if str_in ''experiment_name'' arg then scan_save_dir args (new_args, save_dir, arg)
      else scan_save_dir args (new_args @ [arg], save_dir, experiment_name))"

definition set_save_dir_experiment_name ::
  "world \<Rightarrow> string list \<Rightarrow> string list \<times> string \<times> string" where
  "set_save_dir_experiment_name w cmd_args =
     (case scan_save_dir cmd_args ([], ''results'', today w) of
        (new_args, save_dir, experiment_name) \<Rightarrow>
          (new_args, last (rsplit1 CHR ''='' save_dir), last (rsplit1 CHR ''='' experiment_name)))"

subsection \<open>Step 2: defaults\<close>

text \<open>
  \<^verbatim>\<open>__set_defaults\<close>. Of the names of \<^verbatim>\<open>dir(self)\<close> the filter keeps those of the instance
  that hold no double underscore and are not reserved. Each is called (only a class can
  be called), the instance replaces the class, and the instance is locked.
\<close>

fun set_defaults_loop :: "MainBase \<Rightarrow> string list \<Rightarrow> error + MainBase" where
  "set_defaults_loop self [] = Inr self"
| "set_defaults_loop self (cfg # cfgs) =
     (case map_of self cfg of
        Some (RClass c) \<Rightarrow>
          and_then (instantiate c)
          (\<lambda>inst. and_then (MainBase_setattr self cfg (RSub inst))
          (\<lambda>self1. and_then (get_subconfig self1 cfg)
          (\<lambda>val. and_then (BaseConfig_setattr val ''locked'' (PBool True))
          (\<lambda>val1. set_defaults_loop (AList.update cfg (RSub val1) self1) cfgs))))
      | Some _ \<Rightarrow> Inl PyTypeError
      | None \<Rightarrow> Inl (PyAttributeError cfg))"

definition declared_subconfigs :: "MainBase \<Rightarrow> string list" where
  "declared_subconfigs self =
     py_sorted (filter (\<lambda>a. \<not> str_in ''__'' a \<and> a \<notin> set MainBase_reserved_attributes)
       (remdups (map fst self)))"

definition set_defaults :: "MainBase \<Rightarrow> error + MainBase" where
  "set_defaults self =
     and_then (MainBase_setattr self ''_MainBase__subconfigs'' (RNames (declared_subconfigs self)))
       (\<lambda>self1. set_defaults_loop self1 (declared_subconfigs self))"

subsection \<open>Step 3: help\<close>

text \<open>One printed line for each entry of a subconfig's \<^verbatim>\<open>help_dict\<close>.\<close>

fun help_lines ::
  "string \<Rightarrow> (string \<times> argspec option) list \<Rightarrow> (string \<times> string) list \<Rightarrow> error + string list" where
  "help_lines cfg ad [] = Inr []"
| "help_lines cfg ad ((k, v) # rest) =
     (case map_of ad k of
        None \<Rightarrow> Inl (PyKeyError k)
      | Some None \<Rightarrow> Inl PyTypeError
      | Some (Some spec) \<Rightarrow>
          (let type = ''<class '' @ [CHR 0x27] @ tname (arg_type spec) @ [CHR 0x27] @ ''>'';
               k1 = cfg @ ''.'' @ k
           in and_then (help_lines cfg ad rest)
                (\<lambda>lines. Inr ((''arg: '' @ k1 @ '' '' @ replicate (35 - length k1) CHR '' ''
                     @ ''type: '' @ type @ '' '' @ replicate (20 - length type) CHR '' ''
                     @ ''description: '' @ v) # lines))))"

fun help_args :: "MainBase \<Rightarrow> string list \<Rightarrow> error + string list" where
  "help_args self [] = Inr []"
| "help_args self (cfg # cfgs) =
     and_then (get_subconfig self cfg)
     (\<lambda>val. and_then (get_help_dict val)
     (\<lambda>hd. and_then (get_arg_dict val)
     (\<lambda>ad. and_then (help_lines cfg ad hd)
     (\<lambda>lines. and_then (help_args self cfgs)
     (\<lambda>more. Inr (lines @ more))))))"

definition help_header :: "string \<Rightarrow> string list" where
  "help_header prog =
     [''Usage:  '' @ prog @ ''  [OPTIONS] [OVERRIDE ARGS]'',
      [],
      ''Provide options in the form: {option}={value}'',
      [],
      ''Options:'',
      ''option: config                  description: Path to a filebased config (will override defaults)'',
      ''option: save_dir                description: Parent directory for which to store experimental results'',
      ''option: experiment_name         description: The name of the experiment. Results will be saved in directory save_dir/experiment_name'',
      [],
      [],
      [],
      ''To override a value use form {arg}={val}. For example, '' @ [CHR 0x27]
        @ ''model.model_type=transformer'' @ [CHR 0x27],
      ''Values provided in the command line will override defaults and file-based values'',
      [],
      ''Args:'']"

text \<open>
  \<^verbatim>\<open>__display_help\<close> returns the token list and what it printed. \<^verbatim>\<open>list.remove\<close> takes out
  the first occurrence only: of \<^verbatim>\<open>--h\<close> when there is one, else of \<^verbatim>\<open>--help\<close>.
\<close>

definition display_help :: "MainBase \<Rightarrow> string list \<Rightarrow> error + (string list \<times> string list)" where
  "display_help self cmd_args =
     (if ''--h'' \<in> set cmd_args \<or> ''--help'' \<in> set cmd_args then
        (let cmd_args1 =
               (if ''--h'' \<in> set cmd_args then remove1 ''--h'' cmd_args
                else remove1 ''--help'' cmd_args)
         in case map_of self ''prog'' of
              Some (RVal (PStr prog)) \<Rightarrow>
                and_then (get_subconfigs self)
                (\<lambda>subs. and_then (help_args self subs)
                (\<lambda>lines. Inr (cmd_args1, help_header prog @ lines)))
            | _ \<Rightarrow> Inl Unsupported)
      else Inr (cmd_args, []))"

subsection \<open>Steps 4 and 6: overrides from files and from the command line\<close>

text \<open>\<^verbatim>\<open>__load_json\<close>.\<close>

definition load_json :: "world \<Rightarrow> string \<Rightarrow> error + pyval" where
  "load_json w config_path =
     (case files w config_path of None \<Rightarrow> Inl (FileError config_path) | Some config \<Rightarrow> Inr config)"

text \<open>
  \<^verbatim>\<open>__determine_config_path\<close>: the text after the last \<^verbatim>\<open>config=\<close> of the last token that
  holds \<^verbatim>\<open>config=\<close>; empty when no token does.
\<close>

fun scan_config_path :: "string list \<Rightarrow> string \<Rightarrow> string" where
  "scan_config_path [] config_path = config_path"
| "scan_config_path (arg # args) config_path =
     (if str_in ''config='' arg then scan_config_path args (last (py_split ''config='' arg))
      else scan_config_path args config_path)"

definition determine_config_path :: "string list \<Rightarrow> string" where
  "determine_config_path cmd_args = scan_config_path cmd_args []"

text \<open>
  \<^verbatim>\<open>__load_subconfigs_from_filepath\<close>. The test \<^verbatim>\<open>".json" in v[-5:]\<close> and the load sit in a
  \<^verbatim>\<open>try\<close> whose bare \<^verbatim>\<open>except\<close> keeps the value as it is; only a string can pass the test
  and be opened.
\<close>

definition resolve_path_value :: "world \<Rightarrow> pyval \<Rightarrow> pyval" where
  "resolve_path_value w v =
     (case v of
        PStr s \<Rightarrow>
          if str_in ''.json'' (drop (length s - 5) s)
          then (case files w s of Some loaded \<Rightarrow> loaded | None \<Rightarrow> v)
          else v
      | _ \<Rightarrow> v)"

definition load_subconfigs_from_filepath :: "world \<Rightarrow> pyval \<Rightarrow> error + (string \<times> pyval) list" where
  "load_subconfigs_from_filepath w config =
     (case config of
        PDict kvs \<Rightarrow> Inr (map (\<lambda>(k, v). (k, resolve_path_value w v)) kvs)
      | _ \<Rightarrow> Inl (PyAttributeError ''items''))"

text \<open>\<^verbatim>\<open>__assure_no_additional_keys\<close>.\<close>

fun check_keys :: "string list \<Rightarrow> string list \<Rightarrow> error + unit" where
  "check_keys subs [] = Inr ()"
| "check_keys subs (key # keys) =
     (if key \<notin> set subs then Inl (UnknownSubconfig key) else check_keys subs keys)"

definition assure_no_additional_keys :: "MainBase \<Rightarrow> (string \<times> pyval) list \<Rightarrow> error + unit" where
  "assure_no_additional_keys self config =
     (if config = [] then Inr ()
      else and_then (get_subconfigs self) (\<lambda>subs. check_keys subs (map fst config)))"

text \<open>
  \<^verbatim>\<open>__override_individual_subconfig\<close>. With \<open>assure_in_dir\<close> the name must be in
  \<^verbatim>\<open>dir(subcfg)\<close> and the value goes through \<^verbatim>\<open>__validate_arg\<close>; without it the name is
  entered in \<^verbatim>\<open>arg_dict\<close> with None and the value is taken as it is. Then \<^verbatim>\<open>setattr\<close>.
\<close>

fun override_pairs :: "MainBase \<Rightarrow> string \<Rightarrow> bool \<Rightarrow> (string \<times> pyval) list \<Rightarrow> error + MainBase" where
  "override_pairs self subcfg_name assure_in_dir [] = Inr self"
| "override_pairs self subcfg_name assure_in_dir ((arg_name, val) # rest) =
     and_then (get_subconfig self subcfg_name)
     (\<lambda>subcfg.
        and_then
          (if assure_in_dir then
             (if \<not> hasattr subcfg arg_name then Inl (UnknownArgument subcfg_name arg_name)
              else and_then (validate_arg subcfg_name subcfg arg_name val)
                     (\<lambda>val1. Inr (subcfg, val1)))
           else and_then (get_arg_dict subcfg)
                  (\<lambda>ad. Inr (subcfg\<lparr>arg_dict := AList.update arg_name None ad\<rparr>, val)))
          (\<lambda>(subcfg1, val1).
             and_then (BaseConfig_setattr subcfg1 arg_name val1)
               (\<lambda>subcfg2.
                  override_pairs (AList.update subcfg_name (RSub subcfg2) self)
                    subcfg_name assure_in_dir rest)))"

definition override_individual_subconfig ::
  "MainBase \<Rightarrow> string \<Rightarrow> pyval \<Rightarrow> bool \<Rightarrow> error + MainBase" where
  "override_individual_subconfig self subcfg_name subconfig assure_in_dir =
     (case subconfig of
        PDict kvs \<Rightarrow> override_pairs self subcfg_name assure_in_dir kvs
      | _ \<Rightarrow> Inl (PyAttributeError ''items''))"

text \<open>\<^verbatim>\<open>__override_with_filebased_args\<close>.\<close>

fun override_with_filebased_args ::
  "MainBase \<Rightarrow> (string \<times> pyval) list \<Rightarrow> bool \<Rightarrow> error + MainBase" where
  "override_with_filebased_args self [] assure_in_dir = Inr self"
| "override_with_filebased_args self ((subcfg_name, subconfig) # config) assure_in_dir =
     and_then (override_individual_subconfig self subcfg_name subconfig assure_in_dir)
       (\<lambda>self1. override_with_filebased_args self1 config assure_in_dir)"

text \<open>
  \<^verbatim>\<open>__override_with_cmdline_args\<close>. Each token is cut at its first \<^verbatim>\<open>=\<close>; the name
  \<^verbatim>\<open>config\<close> is skipped; a name without a dot must be a subconfig and its value a file;
  a name with a dot must split at the dots into exactly a subconfig and an argument.
\<close>

fun override_with_cmdline_args ::
  "world \<Rightarrow> MainBase \<Rightarrow> string list \<Rightarrow> bool \<Rightarrow> error + MainBase" where
  "override_with_cmdline_args w self [] assure_in_dir = Inr self"
| "override_with_cmdline_args w self (arg # cmd_args) assure_in_dir =
     (case split1 CHR ''='' arg of
        [name, val] \<Rightarrow>
          if name = ''config'' then override_with_cmdline_args w self cmd_args assure_in_dir
          else if \<not> str_in ''.'' name then
            and_then (get_subconfigs self)
            (\<lambda>subs.
               if name \<in> set subs then
                 and_then (load_json w val)
                 (\<lambda>subconfig. and_then (override_individual_subconfig self name subconfig True)
                 (\<lambda>self1. override_with_cmdline_args w self1 cmd_args assure_in_dir))
               else Inl (InvalidArgumentName name))
          else
            (case py_split ''.'' name of
               [subcfg_name, arg_name] \<Rightarrow>
                 and_then (get_subconfig self subcfg_name)
                 (\<lambda>subcfg.
                    and_then
                      (if assure_in_dir then
                         (if \<not> hasattr subcfg arg_name
                          then Inl (UnknownArgument subcfg_name arg_name)
                          else validate_arg subcfg_name subcfg arg_name (PStr val))
                       else Inr (PStr val))
                      (\<lambda>val1.
                         and_then (BaseConfig_setattr subcfg arg_name val1)
                           (\<lambda>subcfg1.
                              override_with_cmdline_args w
                                (AList.update subcfg_name (RSub subcfg1) self)
                                cmd_args assure_in_dir)))
             | _ \<Rightarrow> Inl (PyUnpackError name))
      | _ \<Rightarrow> Inl (PyUnpackError arg))"

text \<open>
  \<^verbatim>\<open>__override_defaults\<close>: the file named on the command line, when there is one, and then
  the command line itself. The second component is what was printed.
\<close>

definition override_defaults ::
  "world \<Rightarrow> MainBase \<Rightarrow> string list \<Rightarrow> error + (MainBase \<times> string list)" where
  "override_defaults w self cmd_args =
     (let config_path = determine_config_path cmd_args in
      and_then
        (if config_path = []
         then Inr (self,
           [''No filebased config was defined. Only code-based defaults will be used instead.''])
         else
           and_then (load_json w config_path)
           (\<lambda>config. and_then (load_subconfigs_from_filepath w config)
           (\<lambda>config1. and_then (assure_no_additional_keys self config1)
           (\<lambda>_. and_then (override_with_filebased_args self config1 True)
           (\<lambda>self1. Inr (self1, []))))))
        (\<lambda>(self1, out).
           and_then (override_with_cmdline_args w self1 cmd_args True)
             (\<lambda>self2. Inr (self2, out))))"

text \<open>
  The first statement of \<^verbatim>\<open>__override_defaults\<close> alone, the \<^verbatim>\<open>if\<close> on the path of the
  configuration file: the root as the file leaves it, before the loop over the tokens.
\<close>

definition file_overrides ::
  "world \<Rightarrow> MainBase \<Rightarrow> string list \<Rightarrow> error + (MainBase \<times> string list)" where
  "file_overrides w self cmd_args =
     (let config_path = determine_config_path cmd_args in
      if config_path = []
      then Inr (self,
        [''No filebased config was defined. Only code-based defaults will be used instead.''])
      else
        and_then (load_json w config_path)
        (\<lambda>config. and_then (load_subconfigs_from_filepath w config)
        (\<lambda>config1. and_then (assure_no_additional_keys self config1)
        (\<lambda>_. and_then (override_with_filebased_args self config1 True)
        (\<lambda>self1. Inr (self1, []))))))"

subsection \<open>Step 5 of the specification: the configuration beside a checkpoint\<close>

text \<open>
  The loop of \<^verbatim>\<open>__load_checkpoint_config_if_indicated\<close>: a fresh \<^verbatim>\<open>BaseConfig()\<close> is set on
  the root under each key, and the key is appended to \<^verbatim>\<open>self.__subconfigs\<close>.
\<close>

fun attach_subconfigs :: "world \<Rightarrow> MainBase \<Rightarrow> string list \<Rightarrow> error + MainBase" where
  "attach_subconfigs w self [] = Inr self"
| "attach_subconfigs w self (k # ks) =
     and_then (MainBase_setattr self k (RSub (BaseConfig_init (object_attrs w))))
     (\<lambda>self1. and_then (get_subconfigs self1)
     (\<lambda>subs. attach_subconfigs w
                (AList.update ''_MainBase__subconfigs'' (RNames (subs @ [k])) self1) ks))"

definition load_checkpoint_config_if_indicated :: "world \<Rightarrow> MainBase \<Rightarrow> error + MainBase" where
  "load_checkpoint_config_if_indicated w self =
     and_then (get_subconfigs self)
     (\<lambda>subs.
        if length subs = 1 \<and> hd subs = ''evaluation'' then
          and_then (get_subconfig self (hd subs))
          (\<lambda>subcfg. and_then (BaseConfig_getattr subcfg ''checkpoint'')
          (\<lambda>checkpoint.
             case checkpoint of
               PStr config_path \<Rightarrow>
                 (let config_path1 = hd (rsplit1 CHR ''/'' config_path);
                      config_path2 = os_path_join config_path1 ''config.json''
                  in and_then (load_json w config_path2)
                     (\<lambda>config. and_then (load_subconfigs_from_filepath w config)
                     (\<lambda>config1. and_then (attach_subconfigs w self (map fst config1))
                     (\<lambda>self1. and_then (assure_no_additional_keys self1 config1)
                     (\<lambda>_. and_then (override_with_filebased_args self1 config1 False)
                     (\<lambda>self2. MainBase_setattr self2 ''_MainBase__eval'' (RVal (PBool True))))))))
             | _ \<Rightarrow> Inl (PyAttributeError ''rsplit'')))
        else Inr self)"

subsection \<open>Freezing, export and persistence\<close>

text \<open>\<^verbatim>\<open>__freeze_configs\<close>.\<close>

fun freeze_loop :: "MainBase \<Rightarrow> string list \<Rightarrow> error + MainBase" where
  "freeze_loop self [] = Inr self"
| "freeze_loop self (cfg # cfgs) =
     and_then (get_subconfig self cfg)
     (\<lambda>val. and_then (BaseConfig_setattr val ''frozen'' (PBool True))
     (\<lambda>val1. freeze_loop (AList.update cfg (RSub val1) self) cfgs))"

definition freeze_configs :: "MainBase \<Rightarrow> error + MainBase" where
  "freeze_configs self = and_then (get_subconfigs self) (\<lambda>subs. freeze_loop self subs)"

text \<open>
  \<^verbatim>\<open>MainBase.to_dict\<close>: for each subconfig, the keys of its \<^verbatim>\<open>help_dict\<close> with the attribute
  of that name.
\<close>

fun to_dict_loop ::
  "MainBase \<Rightarrow> (string \<times> (string \<times> pyval) list) list \<Rightarrow> string list
     \<Rightarrow> error + (string \<times> (string \<times> pyval) list) list" where
  "to_dict_loop self acc [] = Inr acc"
| "to_dict_loop self acc (cfg # cfgs) =
     and_then (get_subconfig self cfg)
     (\<lambda>val. and_then (get_help_dict val)
     (\<lambda>hd. and_then (collect_attrs val [] (map fst hd))
     (\<lambda>d. to_dict_loop self (AList.update cfg d acc) cfgs)))"

definition MainBase_to_dict :: "MainBase \<Rightarrow> error + (string \<times> (string \<times> pyval) list) list" where
  "MainBase_to_dict self = and_then (get_subconfigs self) (\<lambda>subs. to_dict_loop self [] subs)"

text \<open>
  \<^verbatim>\<open>__create_save_dir\<close> and \<^verbatim>\<open>__save_configs\<close>; the latter gives the path and the content of
  the file it writes.
\<close>

definition create_save_dir :: "world \<Rightarrow> string \<Rightarrow> string \<Rightarrow> error + string" where
  "create_save_dir w save_dir experiment_name =
     (case allocate w save_dir experiment_name of
        None \<Rightarrow> Inl (FileError save_dir)
      | Some d \<Rightarrow> Inr d)"

definition save_configs ::
  "world \<Rightarrow> MainBase \<Rightarrow> string \<Rightarrow> error + (string \<times> (string \<times> (string \<times> pyval) list) list)" where
  "save_configs w self save_dir =
     and_then (MainBase_to_dict self)
       (\<lambda>config_to_save.
          let path = os_path_join save_dir ''config.json''
          in if writable w path then Inr (path, config_to_save) else Inl (FileError path))"

subsection \<open>build\<close>

text \<open>
  \<^verbatim>\<open>MainBase.build\<close>, statement by statement; \<open>argv\<close> is \<^verbatim>\<open>sys.argv[1:]\<close>. The result is the
  root, the lines printed by this class, and the file written, if any.
\<close>

definition build ::
  "world \<Rightarrow> MainBase \<Rightarrow> string list \<Rightarrow> bool
     \<Rightarrow> error + (MainBase \<times> string list \<times> (string \<times> (string \<times> (string \<times> pyval) list) list) option)" where
  "build w self argv dont_save =
     and_then (MainBase_setattr self ''_MainBase__dont_save'' (RVal (PBool dont_save)))
     (\<lambda>self0.
        case set_save_dir_experiment_name w argv of
          (cmd_args, save_dir, experiment_name) \<Rightarrow>
            and_then (set_defaults self0)
            (\<lambda>self1. and_then (display_help self1 cmd_args)
            (\<lambda>(cmd_args1, out1). and_then (override_defaults w self1 cmd_args1)
            (\<lambda>(self2, out2). and_then (load_checkpoint_config_if_indicated w self2)
            (\<lambda>self3.
               let save_dir1 =
                     (if private_flag self3 ''_MainBase__eval'' \<and> save_dir = ''results''
                      then ''eval_results'' else save_dir)
               in and_then (freeze_configs self3)
                  (\<lambda>self4.
                     and_then
                       (if \<not> private_flag self4 ''_MainBase__dont_save'' then
                          and_then (create_save_dir w save_dir1 experiment_name)
                          (\<lambda>save_dir2. and_then (save_configs w self4 save_dir2)
                          (\<lambda>saved. and_then (MainBase_setattr self4 ''save_dir'' (RVal (PStr save_dir2)))
                          (\<lambda>self5. Inr (self5, Some saved))))
                        else
                          and_then (MainBase_setattr self4 ''save_dir'' (RVal PNone))
                            (\<lambda>self5. Inr (self5, None)))
                       (\<lambda>(self5, saved).
                          and_then (MainBase_setattr self5 ''frozen'' (RVal (PBool True)))
                            (\<lambda>self6. Inr (self6, out1 @ out2, saved)))))))))"

section \<open>Example schemas\<close>

text \<open>
  \<^verbatim>\<open>ModelConfig\<close> of \<^verbatim>\<open>example/model_config.py\<close>; \<^verbatim>\<open>TrainingConfig\<close> of
  \<^verbatim>\<open>example/training_config.py\<close> without its float argument \<^verbatim>\<open>lr\<close> (the float type is not
  given a constructor here); and a subconfig for evaluation runs with the one argument
  \<^verbatim>\<open>checkpoint\<close> that \<^verbatim>\<open>__load_checkpoint_config_if_indicated\<close> reads. The strings these
  schemas convert are strings already, so the text of other values is left empty.
\<close>

definition example_str :: pytype where
  "example_str = py_str (\<lambda>v. [])"

text \<open>The validation \<^verbatim>\<open>lambda x: x in ["retinanet", "patch"]\<close>.\<close>

definition model_type_ok :: "pyval \<Rightarrow> bool option" where
  "model_type_ok x = Some (x \<in> set [PStr ''retinanet'', PStr ''patch''])"

definition ModelConfig :: cfg_class where
  "ModelConfig =
     \<lparr>decls = [\<lparr>d_name = ''model_type'', d_type = example_str, d_default = PStr ''retinanet'',
                 d_help = ''The type of model to use'',
                 d_validation = Some model_type_ok\<rparr>],
      class_names = []\<rparr>"

definition TrainingConfig :: cfg_class where
  "TrainingConfig =
     \<lparr>decls = [\<lparr>d_name = ''dataset_to_use'', d_type = example_str, d_default = PStr ''default'',
                 d_help = ''Which dataset do we want to use?'', d_validation = None\<rparr>,
               \<lparr>d_name = ''use_mlflow_logger'', d_type = py_bool, d_default = PBool False,
                 d_help = ''Should we log with mlflow?'', d_validation = None\<rparr>],
      class_names = []\<rparr>"

definition EvaluationConfig :: cfg_class where
  "EvaluationConfig =
     \<lparr>decls = [\<lparr>d_name = ''checkpoint'', d_type = example_str, d_default = PStr ''none'',
                 d_help = ''Path of the checkpoint to evaluate'', d_validation = None\<rparr>],
      class_names = []\<rparr>"

text \<open>\<^verbatim>\<open>MainConfig\<close> of \<^verbatim>\<open>example/main_config.py\<close>, and a root for evaluation runs.\<close>

definition MainConfig :: MainBase where
  "MainConfig =
     AList.update ''training'' (RClass TrainingConfig)
       (AList.update ''model'' (RClass ModelConfig) (MainBase_init ''train.sh'' ''Train a model''))"

definition EvalMain :: MainBase where
  "EvalMain =
     AList.update ''evaluation'' (RClass EvaluationConfig)
       (MainBase_init ''eval.sh'' ''Evaluate a model'')"

section \<open>Worked inputs\<close>

text \<open>
  An instance of \<^verbatim>\<open>TrainingConfig\<close> as \<^verbatim>\<open>__set_defaults\<close> leaves it: declared and locked.
\<close>

definition locked_training :: BaseConfig where
  "locked_training =
     \<lparr>arg_dict = [(''dataset_to_use'', Some \<lparr>arg_type = example_str, arg_validation = None\<rparr>),
                  (''use_mlflow_logger'', Some \<lparr>arg_type = py_bool, arg_validation = None\<rparr>)],
      help_dict = [(''dataset_to_use'', ''Which dataset do we want to use?''),
                   (''use_mlflow_logger'', ''Should we log with mlflow?'')],
      attrs = [''dataset_to_use'' \<mapsto> PStr ''default'', ''use_mlflow_logger'' \<mapsto> PBool False,
               ''locked'' \<mapsto> PBool True],
      class_attrs = []\<rparr>"



text \<open>
  A file system with a configuration file for a training run, one for an evaluation run,
  and the \<^verbatim>\<open>config.json\<close> files persisted by two earlier runs.
\<close>

definition example_files :: "string \<Rightarrow> pyval option" where
  "example_files p =
     (if p = ''cfg.json'' then
        Some (PDict [(''model'', PDict [(''model_type'', PStr ''patch'')]),
                     (''training'', PDict [(''dataset_to_use'', PStr ''rayleigh_dataset'')])])
      else if p = ''bad.json'' then
        Some (PDict [(''model'', PDict [(''model_type'', PStr ''patch'')]),
                     (''optimizer'', PDict [(''name'', PStr ''adam'')])])
      else if p = ''eval.json'' then
        Some (PDict [(''evaluation'', PDict [(''checkpoint'', PStr ''runs/0/model.pt'')])])
      else if p = ''runs/1/config.json'' then
        Some (PDict [(''model'', PDict [(''model_type'', PStr ''patch'')]),
                     (''training'', PDict [(''dataset_to_use'', PStr ''rayleigh_dataset''),
                                           (''use_mlflow_logger'', PBool False)])])
      else if p = ''config.json'' then
        Some (PDict [(''model'', PDict [(''model_type'', PStr ''retinanet'')])])
      else if p = ''runs/2/config.json'' then
        Some (PDict [(''evaluation'', PDict [(''checkpoint'', PStr ''runs/1/model.pt'')]),
                     (''model'', PDict [(''model_type'', PStr ''patch'')])])
      else None)"

definition example_world :: world where
  "example_world =
     \<lparr>files = example_files, today = ''2026-01-01'', object_attrs = [],
      allocate = (\<lambda>d e. Some (d @ ''/'' @ e @ ''/1'')), writable = (\<lambda>p. True)\<rparr>"





text \<open>The name of a command-line token: what stands before its first \<^verbatim>\<open>=\<close>.\<close>

definition token_name :: "string \<Rightarrow> string" where
  "token_name t = hd (split1 CHR ''='' t)"

text \<open>
  Two states of one subconfig between locking and freezing: the same dictionaries, the
  same class, the same attribute names.
\<close>

definition same_shape :: "BaseConfig \<Rightarrow> BaseConfig \<Rightarrow> bool" where
  "same_shape c c' \<longleftrightarrow>
     arg_dict c' = arg_dict c \<and> help_dict c' = help_dict c \<and> class_attrs c' = class_attrs c
     \<and> hasattr c' = hasattr c"

text \<open>The two spellings of the help token.\<close>

definition is_help :: "string \<Rightarrow> bool" where
  "is_help t \<longleftrightarrow> t = ''--h'' \<or> t = ''--help''"

text \<open>
  Reading the result of \<^verbatim>\<open>build\<close>: the exception it raised, the value of an argument on
  the root it returned, and the export of that root.
\<close>

definition build_error :: "error + 'a \<Rightarrow> error option" where
  "build_error res = (case res of Inl e \<Rightarrow> Some e | Inr x \<Rightarrow> None)"


definition export_of ::
  "error + (MainBase \<times> 'a) \<Rightarrow> error + (string \<times> (string \<times> pyval) list) list" where
  "export_of res = (case res of Inl e \<Rightarrow> Inl e | Inr (r, x) \<Rightarrow> MainBase_to_dict r)"


text \<open>\<^verbatim>\<open>config.s.to_dict()\<close> on the root that \<^verbatim>\<open>build\<close> returned.\<close>

definition subconfig_export_of ::
  "error + (MainBase \<times> 'a) \<Rightarrow> string \<Rightarrow> error + (string \<times> pyval) list" where
  "subconfig_export_of res s =
     (case res of
        Inl e \<Rightarrow> Inl e
      | Inr (r, x) \<Rightarrow> and_then (get_subconfig r s) BaseConfig_to_dict)"

section \<open>Basic facts\<close>

lemma and_then_simps [simp]:
  "and_then (Inl e) f = Inl e"
  "and_then (Inr x) f = f x"
  by (simp_all add: and_then_def)

lemma and_then_Inr: "and_then m f = Inr y \<longleftrightarrow> (\<exists>x. m = Inr x \<and> f x = Inr y)"
  by (cases m) simp_all

lemma BaseConfig_setattr_Inr:
  assumes "BaseConfig_setattr self key v = Inr self'"
  shows "self' = self\<lparr>attrs := (attrs self)(key \<mapsto> v)\<rparr>"
  using assms by (auto simp add: BaseConfig_setattr_def split: if_splits)

lemma MainBase_setattr_Inr:
  assumes "MainBase_setattr self key v = Inr self'"
  shows "self' = AList.update key v self" and "\<not> private_flag self ''_MainBase__frozen''"
  using assms by (auto simp add: MainBase_setattr_def split: if_splits)

section \<open>The mutation gate of a subconfig\<close>




section \<open>Declaring an argument\<close>




section \<open>Conversion to bool\<close>

text \<open>
  C10. For an argument whose \<^verbatim>\<open>arg_dict\<close> entry has the type \<^verbatim>\<open>bool\<close>, \<^verbatim>\<open>__validate_arg\<close>
  never fails with the type-coercion error, whatever the value; on a string it can only
  return true for a non-empty string and false for the empty one; and without a
  validation predicate it does return that.
\<close>

theorem bool_coercion:
  assumes "attrs subcfg ''arg_dict'' = None"
    and "map_of (arg_dict subcfg) arg_name = Some (Some spec)"
    and "arg_type spec = py_bool"
  shows "(\<forall>v. validate_arg subcfg_name subcfg arg_name v \<noteq> Inl (TypeCoercion subcfg_name arg_name))
     \<and> (\<forall>s r. validate_arg subcfg_name subcfg arg_name (PStr s) = Inr r \<longrightarrow> r = PBool (s \<noteq> []))
     \<and> (arg_validation spec = None
          \<longrightarrow> (\<forall>s. validate_arg subcfg_name subcfg arg_name (PStr s) = Inr (PBool (s \<noteq> []))))"
  using assms
  by (auto simp add: validate_arg_def get_arg_dict_def py_bool_def split: option.splits if_splits)

text \<open>
  On \<^verbatim>\<open>training.use_mlflow_logger\<close> the strings \<^verbatim>\<open>False\<close> and \<^verbatim>\<open>false\<close> become true and the
  empty string becomes false.
\<close>

theorem bool_coercion_witness:
  "attrs locked_training ''arg_dict'' = None
   \<and> map_of (arg_dict locked_training) ''use_mlflow_logger''
       = Some (Some \<lparr>arg_type = py_bool, arg_validation = None\<rparr>)
   \<and> validate_arg ''training'' locked_training ''use_mlflow_logger'' (PStr ''False'')
       = Inr (PBool True)
   \<and> validate_arg ''training'' locked_training ''use_mlflow_logger'' (PStr ''false'')
       = Inr (PBool True)
   \<and> validate_arg ''training'' locked_training ''use_mlflow_logger'' (PStr [])
       = Inr (PBool False)"
  using bool_coercion [of locked_training "''use_mlflow_logger''"
      "\<lparr>arg_type = py_bool, arg_validation = None\<rparr>" "''training''"]
  by (simp add: locked_training_def)

section \<open>The steps of build\<close>

lemma persist_step:
  assumes "(if c then
              and_then A (\<lambda>d. and_then (B d) (\<lambda>saved.
                and_then (MainBase_setattr s4 ''save_dir'' (RVal (PStr d)))
                  (\<lambda>s5. Inr (s5, Some saved))))
            else and_then (MainBase_setattr s4 ''save_dir'' (RVal PNone))
                   (\<lambda>s5. Inr (s5, None))) = Inr (s5, sv)"
  shows "\<exists>v. MainBase_setattr s4 ''save_dir'' v = Inr s5"
  using assms by (auto simp add: and_then_Inr split: if_splits)

text \<open>A successful \<^verbatim>\<open>build\<close> went through each of its statements, in this order.\<close>

lemma build_steps:
  assumes "build w self argv ds = Inr (r, out, sv)"
  shows "\<exists>self0 self1 cmd_args1 out1 self2 out2 self3 self4 self5 v.
       MainBase_setattr self ''_MainBase__dont_save'' (RVal (PBool ds)) = Inr self0
     \<and> set_defaults self0 = Inr self1
     \<and> display_help self1 (fst (set_save_dir_experiment_name w argv)) = Inr (cmd_args1, out1)
     \<and> override_defaults w self1 cmd_args1 = Inr (self2, out2)
     \<and> load_checkpoint_config_if_indicated w self2 = Inr self3
     \<and> freeze_configs self3 = Inr self4
     \<and> MainBase_setattr self4 ''save_dir'' v = Inr self5
     \<and> MainBase_setattr self5 ''frozen'' (RVal (PBool True)) = Inr r
     \<and> out = out1 @ out2"
  using assms unfolding build_def Let_def
  apply (clarsimp simp add: and_then_Inr case_prod_beta)
  apply (drule persist_step)
  apply auto
  done

section \<open>The root after build\<close>

text \<open>
  C3, the part about the root, fails on the code. \<^verbatim>\<open>build\<close> ends with
  \<^verbatim>\<open>self.frozen = True\<close>, while \<^verbatim>\<open>__setattr__\<close> tests \<^verbatim>\<open>self.__frozen\<close>, the attribute
  \<^verbatim>\<open>_MainBase__frozen\<close>, which nothing sets. So after every \<^verbatim>\<open>build\<close> that returns, every
  assignment to an attribute of the root succeeds.
\<close>

theorem root_never_frozen:
  assumes "build w self argv ds = Inr (r, out, sv)"
  shows "MainBase_setattr r key v = Inr (AList.update key v r)"
proof -
  from build_steps [OF assms] obtain self5 where
    last: "MainBase_setattr self5 ''frozen'' (RVal (PBool True)) = Inr r"
    by blast
  from MainBase_setattr_Inr [OF last]
  have "\<not> private_flag self5 ''_MainBase__frozen''"
    and "r = AList.update ''frozen'' (RVal (PBool True)) self5"
    by simp_all
  then have "\<not> private_flag r ''_MainBase__frozen''"
    by (simp add: private_flag_def update_conv')
  then show ?thesis
    by (simp add: MainBase_setattr_def)
qed

text \<open>
  \<^verbatim>\<open>MainConfig().build(dont_save=True)\<close> with an empty command line returns, the root has
  \<^verbatim>\<open>frozen\<close> set, and \<^verbatim>\<open>config.prog = "other.sh"\<close> is accepted.
\<close>

theorem root_never_frozen_witness:
  "\<exists>r out sv. build example_world MainConfig [] True = Inr (r, out, sv)
     \<and> map_of r ''frozen'' = Some (RVal (PBool True))
     \<and> MainBase_setattr r ''prog'' (RVal (PStr ''other.sh''))
         = Inr (AList.update ''prog'' (RVal (PStr ''other.sh'')) r)"
proof -
  have "build_error (build example_world MainConfig [] True) = None"
    by code_simp
  then obtain r out sv where b: "build example_world MainConfig [] True = Inr (r, out, sv)"
    by (cases "build example_world MainConfig [] True") (auto simp add: build_error_def)
  from build_steps [OF b] obtain self5 where
    "MainBase_setattr self5 ''frozen'' (RVal (PBool True)) = Inr r"
    by blast
  from MainBase_setattr_Inr(1) [OF this] have "map_of r ''frozen'' = Some (RVal (PBool True))"
    by (simp add: update_conv')
  with root_never_frozen [OF b, of "''prog''" "RVal (PStr ''other.sh'')"] b show ?thesis
    by blast
qed

section \<open>The export of the root\<close>

text \<open>
  C4 fails on the code for the subconfigs that come from a checkpoint's \<^verbatim>\<open>config.json\<close>.
  Their arguments are entered in \<^verbatim>\<open>arg_dict\<close> only, and \<^verbatim>\<open>MainBase.to_dict\<close> lists the keys
  of \<^verbatim>\<open>help_dict\<close>. In an evaluation run whose checkpoint lies beside the persisted
  configuration of a training run, the export of the root shows \<^verbatim>\<open>model\<close> and \<^verbatim>\<open>training\<close>
  with no argument at all, while \<^verbatim>\<open>BaseConfig.to_dict\<close> on each of them lists the arguments
  they hold.
\<close>

theorem root_export_misses_checkpoint_arguments:
  "export_of (build example_world EvalMain [''evaluation.checkpoint=runs/1/model.pt''] True)
     = Inr [(''evaluation'', [(''checkpoint'', PStr ''runs/1/model.pt'')]),
            (''model'', []), (''training'', [])]
   \<and> subconfig_export_of
        (build example_world EvalMain [''evaluation.checkpoint=runs/1/model.pt''] True) ''model''
     = Inr [(''model_type'', PStr ''patch'')]
   \<and> subconfig_export_of
        (build example_world EvalMain [''evaluation.checkpoint=runs/1/model.pt''] True) ''training''
     = Inr [(''dataset_to_use'', PStr ''rayleigh_dataset''), (''use_mlflow_logger'', PBool False)]"
  by code_simp

section \<open>What the override loops change\<close>

lemma override_pairs_other:
  assumes "override_pairs self n assure kvs = Inr self'" and "k \<noteq> n"
  shows "map_of self' k = map_of self k"
  using assms
proof (induction kvs arbitrary: self)
  case Nil
  then show ?case by simp
next
  case (Cons p kvs)
  obtain a v where p: "p = (a, v)" by (cases p)
  from Cons.prems(1) obtain c2 where
    rec: "override_pairs (AList.update n (RSub c2) self) n assure kvs = Inr self'"
    unfolding p by (auto simp add: and_then_Inr)
  from Cons.IH [OF rec Cons.prems(2)] Cons.prems(2) show ?case
    by (simp add: update_conv')
qed





section \<open>The configuration beside a checkpoint\<close>

lemma split_once_append:
  assumes "c \<notin> set a"
  shows "split_once c cur (a @ c # b) = [cur @ a, b]"
  using assms by (induction a arbitrary: cur) auto

lemma split_once_none:
  assumes "c \<notin> set a"
  shows "split_once c cur a = [cur @ a]"
  using assms by (induction a arbitrary: cur) auto


lemma rsplit1_no_sep:
  assumes "c \<notin> set s"
  shows "rsplit1 c s = [s]"
proof -
  have "split1 c (rev s) = [rev s]"
    unfolding split1_def using split_once_none [of c "rev s" "[]"] assms by simp
  then show ?thesis by (simp add: rsplit1_def)
qed







section \<open>What the steps of build leave alone\<close>

lemma if_Inl_Inr: "(if b then Inl e else m) = Inr x \<longleftrightarrow> \<not> b \<and> m = Inr x"
  by simp

lemma get_subconfig_Inr: "get_subconfig self n = Inr c \<longleftrightarrow> map_of self n = Some (RSub c)"
proof (cases "map_of self n")
  case None
  then show ?thesis by (simp add: get_subconfig_def)
next
  case (Some v)
  then show ?thesis by (cases v) (simp_all add: get_subconfig_def)
qed

lemma override_pairs_keeps:
  assumes "override_pairs self n assure kvs = Inr self'"
    and "\<forall>c. map_of self k \<noteq> Some (RSub c)"
  shows "map_of self' k = map_of self k"
proof (cases kvs)
  case Nil
  with assms(1) show ?thesis by simp
next
  case (Cons p rest)
  obtain a v where p: "p = (a, v)" by (cases p)
  from assms(1) obtain c where "get_subconfig self n = Inr c"
    unfolding Cons p by (auto simp add: and_then_Inr)
  then have "map_of self n = Some (RSub c)" by (simp add: get_subconfig_Inr)
  with assms(2) have "k \<noteq> n" by auto
  from override_pairs_other [OF assms(1) this] show ?thesis .
qed

lemma override_individual_keeps:
  assumes "override_individual_subconfig self n v assure = Inr self'"
    and "\<forall>c. map_of self k \<noteq> Some (RSub c)"
  shows "map_of self' k = map_of self k"
proof -
  from assms(1) obtain kvs where "override_pairs self n assure kvs = Inr self'"
    by (auto simp add: override_individual_subconfig_def split: pyval.splits)
  from override_pairs_keeps [OF this assms(2)] show ?thesis .
qed

lemma filebased_keeps:
  assumes "override_with_filebased_args self config assure = Inr self'"
    and "\<forall>c. map_of self k \<noteq> Some (RSub c)"
  shows "map_of self' k = map_of self k"
  using assms
proof (induction config arbitrary: self)
  case Nil
  then show ?case by simp
next
  case (Cons p config)
  obtain n v where p: "p = (n, v)" by (cases p)
  from Cons.prems(1) obtain self1 where
    one: "override_individual_subconfig self n v assure = Inr self1"
    and rec: "override_with_filebased_args self1 config assure = Inr self'"
    unfolding p by (auto simp add: and_then_Inr)
  from override_individual_keeps [OF one Cons.prems(2)]
  have eq: "map_of self1 k = map_of self k" .
  with Cons.prems(2) have "\<forall>c. map_of self1 k \<noteq> Some (RSub c)" by simp
  from Cons.IH [OF rec this] eq show ?case by simp
qed

text \<open>One token of the command line, as the loop of \<^verbatim>\<open>__override_with_cmdline_args\<close> treats it.\<close>

lemma cmdline_step:
  assumes "override_with_cmdline_args w self (arg # cmd_args) True = Inr self'"
  shows "\<exists>name val self1.
        split1 CHR ''='' arg = [name, val]
      \<and> override_with_cmdline_args w self1 cmd_args True = Inr self'
      \<and> (name = ''config'' \<and> self1 = self
          \<or> name \<noteq> ''config'' \<and> \<not> str_in ''.'' name
              \<and> (\<exists>subconfig. load_json w val = Inr subconfig
                    \<and> override_individual_subconfig self name subconfig True = Inr self1)
          \<or> name \<noteq> ''config'' \<and> str_in ''.'' name
              \<and> (\<exists>subcfg_name arg_name subcfg val1 subcfg1.
                    py_split ''.'' name = [subcfg_name, arg_name]
                  \<and> get_subconfig self subcfg_name = Inr subcfg
                  \<and> hasattr subcfg arg_name
                  \<and> validate_arg subcfg_name subcfg arg_name (PStr val) = Inr val1
                  \<and> BaseConfig_setattr subcfg arg_name val1 = Inr subcfg1
                  \<and> self1 = AList.update subcfg_name (RSub subcfg1) self))"
proof -
  from assms obtain name val where nv: "split1 CHR ''='' arg = [name, val]"
    by (auto split: list.splits)
  show ?thesis
  proof (cases "name = ''config''")
    case True
    with assms nv show ?thesis by simp
  next
    case nc: False
    show ?thesis
    proof (cases "str_in ''.'' name")
      case False
      with assms nv nc have
        "and_then (get_subconfigs self)
            (\<lambda>subs.
               if name \<in> set subs then
                 and_then (load_json w val)
                 (\<lambda>subconfig. and_then (override_individual_subconfig self name subconfig True)
                 (\<lambda>self1. override_with_cmdline_args w self1 cmd_args True))
               else Inl (InvalidArgumentName name)) = Inr self'"
        by simp
      then obtain subs where
        "(if name \<in> set subs then
                 and_then (load_json w val)
                 (\<lambda>subconfig. and_then (override_individual_subconfig self name subconfig True)
                 (\<lambda>self1. override_with_cmdline_args w self1 cmd_args True))
               else Inl (InvalidArgumentName name)) = Inr self'"
        by (auto simp add: and_then_Inr)
      then have "and_then (load_json w val)
                 (\<lambda>subconfig. and_then (override_individual_subconfig self name subconfig True)
                 (\<lambda>self1. override_with_cmdline_args w self1 cmd_args True)) = Inr self'"
        by (cases "name \<in> set subs") simp_all
      with nv nc False show ?thesis
        by (simp add: and_then_Inr) blast
    next
      case True
      with assms nv nc obtain subcfg_name arg_name where
        sp: "py_split ''.'' name = [subcfg_name, arg_name]"
        by (auto split: list.splits)
      with assms nv nc True have
        "and_then (get_subconfig self subcfg_name)
                 (\<lambda>subcfg.
                    and_then
                      (if \<not> hasattr subcfg arg_name
                       then Inl (UnknownArgument subcfg_name arg_name)
                       else validate_arg subcfg_name subcfg arg_name (PStr val))
                      (\<lambda>val1.
                         and_then (BaseConfig_setattr subcfg arg_name val1)
                           (\<lambda>subcfg1.
                              override_with_cmdline_args w
                                (AList.update subcfg_name (RSub subcfg1) self)
                                cmd_args True))) = Inr self'"
        by simp
      then obtain subcfg val1 subcfg1 where
        "get_subconfig self subcfg_name = Inr subcfg" "hasattr subcfg arg_name"
        "validate_arg subcfg_name subcfg arg_name (PStr val) = Inr val1"
        "BaseConfig_setattr subcfg arg_name val1 = Inr subcfg1"
        "override_with_cmdline_args w (AList.update subcfg_name (RSub subcfg1) self)
            cmd_args True = Inr self'"
        by (auto simp add: and_then_Inr if_Inl_Inr)
      with nv nc True sp show ?thesis by blast
    qed
  qed
qed







section \<open>Defaults and the last statements of build\<close>







section \<open>The order of command line and checkpoint\<close>







section \<open>Tokens\<close>

lemma starts_with_append: "starts_with p (p @ r)"
  by (induction p) simp_all

lemma starts_with_decomp: "starts_with p s \<Longrightarrow> s = p @ drop (length p) s"
  by (induction p s rule: starts_with.induct) simp_all

lemma str_in_append: "str_in sub (xs @ sub @ ys)"
proof (induction xs)
  case Nil
  show ?case
  proof (cases "sub @ ys")
    case Nil
    then show ?thesis by simp
  next
    case (Cons c cs)
    then show ?thesis using starts_with_append [of sub ys] by simp
  qed
next
  case (Cons x xs)
  then show ?case by simp
qed

lemma str_in_char: "str_in [c] s \<longleftrightarrow> c \<in> set s"
  by (induction s) auto

lemma split_from_char_none:
  assumes "c \<notin> set s"
  shows "split_from [c] cur s = [cur @ s]"
  using assms by (induction s arbitrary: cur) auto

lemma split_from_char_once:
  assumes "c \<notin> set x" and "c \<notin> set y"
  shows "split_from [c] cur (x @ c # y) = [cur @ x, y]"
  using assms by (induction x arbitrary: cur) (auto simp add: split_from_char_none)

lemma split_from_not_Nil: "split_from sep cur s \<noteq> []"
  by (induction sep cur s rule: split_from.induct) simp_all

lemma split_from_char_single:
  assumes "split_from [c] cur s = [y]"
  shows "y = cur @ s"
  using assms
proof (induction s arbitrary: cur)
  case Nil
  then show ?case by simp
next
  case (Cons d s)
  show ?case
  proof (cases "d = c")
    case True
    with Cons.prems split_from_not_Nil [of "[c]" "[]" s] show ?thesis by simp
  next
    case False
    with Cons.prems have "split_from [c] (cur @ [d]) s = [y]" by simp
    from Cons.IH [OF this] show ?thesis by simp
  qed
qed

lemma split_from_char_two:
  assumes "split_from [c] cur s = [x, y]"
  shows "cur @ s = x @ c # y"
  using assms
proof (induction s arbitrary: cur)
  case Nil
  then show ?case by simp
next
  case (Cons d s)
  show ?case
  proof (cases "d = c")
    case True
    with Cons.prems have "x = cur" and "split_from [c] [] s = [y]" by simp_all
    with split_from_char_single [of c "[]" s y] True show ?thesis by simp
  next
    case False
    with Cons.prems have "split_from [c] (cur @ [d]) s = [x, y]" by simp
    from Cons.IH [OF this] show ?thesis by simp
  qed
qed

lemma py_split_dot_two:
  assumes "py_split ''.'' name = [x, y]"
  shows "name = x @ ''.'' @ y"
  using split_from_char_two [of "CHR ''.''" "[]" name x y] assms
  by (simp add: py_split_def)

lemma py_split_dot_join:
  assumes "CHR ''.'' \<notin> set x" and "CHR ''.'' \<notin> set y"
  shows "py_split ''.'' (x @ ''.'' @ y) = [x, y]"
  using split_from_char_once [OF assms, of "[]"] by (simp add: py_split_def)

text \<open>How a token of the form \<^verbatim>\<open>subconfig.argument=value\<close> is read.\<close>

lemma dotted_token_parse:
  assumes "CHR ''.'' \<notin> set s" and "CHR ''.'' \<notin> set a"
    and "CHR ''='' \<notin> set s" and "CHR ''='' \<notin> set a"
  shows "split1 CHR ''='' (s @ ''.'' @ a @ ''='' @ v) = [s @ ''.'' @ a, v]"
    and "token_name (s @ ''.'' @ a @ ''='' @ v) = s @ ''.'' @ a"
    and "s @ ''.'' @ a \<noteq> ''config''"
    and "str_in ''.'' (s @ ''.'' @ a)"
    and "py_split ''.'' (s @ ''.'' @ a) = [s, a]"
proof -
  have "CHR ''='' \<notin> set (s @ ''.'' @ a)" using assms by simp
  from split_once_append [OF this, of "[]" v]
  show 1: "split1 CHR ''='' (s @ ''.'' @ a @ ''='' @ v) = [s @ ''.'' @ a, v]"
    by (simp add: split1_def)
  then show "token_name (s @ ''.'' @ a @ ''='' @ v) = s @ ''.'' @ a"
    by (simp add: token_name_def)
  have "CHR ''.'' \<in> set (s @ ''.'' @ a)" by simp
  moreover have "CHR ''.'' \<notin> set ''config''" by simp
  ultimately show "s @ ''.'' @ a \<noteq> ''config''" by metis
  show "str_in ''.'' (s @ ''.'' @ a)" by (simp add: str_in_char)
  from py_split_dot_join [OF assms(1,2)] show "py_split ''.'' (s @ ''.'' @ a) = [s, a]" .
qed

text \<open>The token list that reaches \<^verbatim>\<open>__override_defaults\<close>.\<close>

lemma scan_save_dir_fst:
  "fst (scan_save_dir args (acc, sd, en))
     = acc @ filter (\<lambda>a. \<not> str_in ''save_dir'' a \<and> \<not> str_in ''experiment_name'' a) args"
  by (induction args arbitrary: acc sd en) simp_all

lemma set_save_dir_experiment_name_fst:
  "fst (set_save_dir_experiment_name w argv)
     = filter (\<lambda>a. \<not> str_in ''save_dir'' a \<and> \<not> str_in ''experiment_name'' a) argv"
proof -
  obtain x y z where r: "scan_save_dir argv ([], ''results'', today w) = (x, y, z)"
    by (cases "scan_save_dir argv ([], ''results'', today w)") auto
  with scan_save_dir_fst [of argv "[]" "''results''" "today w"] show ?thesis
    by (simp add: set_save_dir_experiment_name_def)
qed

lemma display_help_tokens:
  assumes "display_help self args = Inr (args', out)"
  shows "args' = args \<or> args' = remove1 ''--h'' args \<or> args' = remove1 ''--help'' args"
  using assms
  by (auto simp add: display_help_def Let_def and_then_Inr
      split: if_splits option.splits rval.splits pyval.splits)

lemma cmdline_append:
  "override_with_cmdline_args w self (xs @ ys) True
     = and_then (override_with_cmdline_args w self xs True)
         (\<lambda>self1. override_with_cmdline_args w self1 ys True)"
proof (induction xs arbitrary: self)
  case Nil
  show ?case by simp
next
  case (Cons x xs)
  show ?case
    by (simp add: Cons.IH and_then_def
        split: list.splits sum.splits if_splits)
qed

lemma same_shape_refl: "same_shape c c"
  by (simp add: same_shape_def)

lemma same_shape_trans: "same_shape c c' \<Longrightarrow> same_shape c' c'' \<Longrightarrow> same_shape c c''"
  by (simp add: same_shape_def)

lemma setattr_shape:
  assumes "BaseConfig_setattr c n v = Inr c'" and "hasattr c n"
  shows "same_shape c c'" and "attrs c' n = Some v" and "\<And>x. x \<noteq> n \<Longrightarrow> attrs c' x = attrs c x"
proof -
  have c': "c' = c\<lparr>attrs := (attrs c)(n \<mapsto> v)\<rparr>"
    using BaseConfig_setattr_Inr [OF assms(1)] .
  have "hasattr c' x = hasattr c x" for x
    using assms(2) unfolding c' by (cases "x = n") (simp_all add: hasattr_def split: option.splits)
  then show "same_shape c c'"
    unfolding same_shape_def c' by auto
  show "attrs c' n = Some v" unfolding c' by simp
  show "\<And>x. x \<noteq> n \<Longrightarrow> attrs c' x = attrs c x" unfolding c' by simp
qed

lemma override_pairs_shape:
  assumes "override_pairs self n True kvs = Inr self'"
    and "map_of self n = Some (RSub c)"
  shows "\<exists>c'. map_of self' n = Some (RSub c') \<and> same_shape c c'
      \<and> (\<forall>x. x \<notin> fst ` set kvs \<longrightarrow> attrs c' x = attrs c x)"
  using assms
proof (induction kvs arbitrary: self c)
  case Nil
  then show ?case by (simp add: same_shape_refl)
next
  case (Cons p kvs)
  obtain a v where p: "p = (a, v)" by (cases p)
  from Cons.prems(2) have g: "get_subconfig self n = Inr c"
    by (simp add: get_subconfig_Inr)
  from Cons.prems(1) obtain v1 c2 where
    h: "hasattr c a"
    and c2: "BaseConfig_setattr c a v1 = Inr c2"
    and rec: "override_pairs (AList.update n (RSub c2) self) n True kvs = Inr self'"
    unfolding p by (auto simp add: and_then_Inr g if_Inl_Inr)
  have "map_of (AList.update n (RSub c2) self) n = Some (RSub c2)"
    by (simp add: update_conv')
  from Cons.IH [OF rec this] obtain c' where
    c': "map_of self' n = Some (RSub c')" "same_shape c2 c'"
      "\<forall>x. x \<notin> fst ` set kvs \<longrightarrow> attrs c' x = attrs c2 x"
    by blast
  from setattr_shape [OF c2 h] c' show ?case
    unfolding p by (auto intro: same_shape_trans)
qed

lemma override_individual_shape:
  assumes "override_individual_subconfig self n v True = Inr self'"
    and "map_of self k = Some (RSub c)"
  shows "\<exists>c'. map_of self' k = Some (RSub c') \<and> same_shape c c' \<and> (k \<noteq> n \<longrightarrow> c' = c)"
proof -
  from assms(1) obtain kvs where pairs: "override_pairs self n True kvs = Inr self'"
    by (auto simp add: override_individual_subconfig_def split: pyval.splits)
  show ?thesis
  proof (cases "k = n")
    case True
    with override_pairs_shape [OF pairs] assms(2) show ?thesis by blast
  next
    case False
    from override_pairs_other [OF pairs False] assms(2) False show ?thesis
      by (simp add: same_shape_refl)
  qed
qed

lemma filebased_shape:
  assumes "override_with_filebased_args self config True = Inr self'"
    and "map_of self k = Some (RSub c)"
  shows "\<exists>c'. map_of self' k = Some (RSub c') \<and> same_shape c c'"
  using assms
proof (induction config arbitrary: self c)
  case Nil
  then show ?case by (simp add: same_shape_refl)
next
  case (Cons p config)
  obtain n v where p: "p = (n, v)" by (cases p)
  from Cons.prems(1) obtain self1 where
    one: "override_individual_subconfig self n v True = Inr self1"
    and rec: "override_with_filebased_args self1 config True = Inr self'"
    unfolding p by (auto simp add: and_then_Inr)
  from override_individual_shape [OF one Cons.prems(2)] obtain c1 where
    c1: "map_of self1 k = Some (RSub c1)" "same_shape c c1" by blast
  from Cons.IH [OF rec c1(1)] c1(2) show ?case
    by (auto intro: same_shape_trans)
qed

text \<open>
  One token of the command line, seen from one entry of the root: an entry that is not a
  subconfig stays; a subconfig keeps its shape.
\<close>

lemma cmdline_step_cases:
  assumes "override_with_cmdline_args w self (arg # cmd_args) True = Inr self'"
  obtains
    (skip) val where "split1 CHR ''='' arg = [''config'', val]"
      "override_with_cmdline_args w self cmd_args True = Inr self'"
  | (whole) name val subconfig self1 where "split1 CHR ''='' arg = [name, val]"
      "name \<noteq> ''config''" "\<not> str_in ''.'' name" "load_json w val = Inr subconfig"
      "override_individual_subconfig self name subconfig True = Inr self1"
      "override_with_cmdline_args w self1 cmd_args True = Inr self'"
  | (single) name val subcfg_name arg_name subcfg val1 subcfg1 where
      "split1 CHR ''='' arg = [name, val]" "name \<noteq> ''config''"
      "py_split ''.'' name = [subcfg_name, arg_name]"
      "get_subconfig self subcfg_name = Inr subcfg" "hasattr subcfg arg_name"
      "validate_arg subcfg_name subcfg arg_name (PStr val) = Inr val1"
      "BaseConfig_setattr subcfg arg_name val1 = Inr subcfg1"
      "override_with_cmdline_args w (AList.update subcfg_name (RSub subcfg1) self) cmd_args True
         = Inr self'"
proof -
  from cmdline_step [OF assms] obtain name val self1 where
    nv: "split1 CHR ''='' arg = [name, val]"
    and rec: "override_with_cmdline_args w self1 cmd_args True = Inr self'"
    and one: "name = ''config'' \<and> self1 = self
          \<or> name \<noteq> ''config'' \<and> \<not> str_in ''.'' name
              \<and> (\<exists>subconfig. load_json w val = Inr subconfig
                    \<and> override_individual_subconfig self name subconfig True = Inr self1)
          \<or> name \<noteq> ''config'' \<and> str_in ''.'' name
              \<and> (\<exists>subcfg_name arg_name subcfg val1 subcfg1.
                    py_split ''.'' name = [subcfg_name, arg_name]
                  \<and> get_subconfig self subcfg_name = Inr subcfg
                  \<and> hasattr subcfg arg_name
                  \<and> validate_arg subcfg_name subcfg arg_name (PStr val) = Inr val1
                  \<and> BaseConfig_setattr subcfg arg_name val1 = Inr subcfg1
                  \<and> self1 = AList.update subcfg_name (RSub subcfg1) self)"
    by (elim exE conjE) (rule that)
  from one show thesis
  proof (elim disjE conjE exE)
    assume "name = ''config''" "self1 = self"
    with nv rec show thesis by (intro skip [of val]) simp_all
  next
    fix subconfig
    assume "name \<noteq> ''config''" "\<not> str_in ''.'' name" "load_json w val = Inr subconfig"
      "override_individual_subconfig self name subconfig True = Inr self1"
    with nv rec show thesis by (intro whole [of name val subconfig self1])
  next
    fix subcfg_name arg_name subcfg val1 subcfg1
    assume "name \<noteq> ''config''" "py_split ''.'' name = [subcfg_name, arg_name]"
      "get_subconfig self subcfg_name = Inr subcfg" "hasattr subcfg arg_name"
      "validate_arg subcfg_name subcfg arg_name (PStr val) = Inr val1"
      "BaseConfig_setattr subcfg arg_name val1 = Inr subcfg1"
      "self1 = AList.update subcfg_name (RSub subcfg1) self"
    with nv rec show thesis
      by (intro single [of name val subcfg_name arg_name subcfg val1 subcfg1]) simp_all
  qed
qed

lemma cmdline_step_shape:
  assumes "override_with_cmdline_args w self (arg # cmd_args) True = Inr self'"
  shows "\<exists>self1. override_with_cmdline_args w self1 cmd_args True = Inr self'
      \<and> (\<forall>k. (\<forall>c. map_of self k \<noteq> Some (RSub c)) \<longrightarrow> map_of self1 k = map_of self k)
      \<and> (\<forall>k c. map_of self k = Some (RSub c)
           \<longrightarrow> (\<exists>c1. map_of self1 k = Some (RSub c1) \<and> same_shape c c1))"
  using assms
proof (cases rule: cmdline_step_cases)
  case (skip val)
  show ?thesis
    by (rule exI [of _ self]) (simp add: skip(2) same_shape_refl)
next
  case (whole name val subconfig self1)
  have "\<forall>k. (\<forall>c. map_of self k \<noteq> Some (RSub c)) \<longrightarrow> map_of self1 k = map_of self k"
    using override_individual_keeps [OF whole(5)] by simp
  moreover have "\<forall>k c. map_of self k = Some (RSub c)
           \<longrightarrow> (\<exists>c1. map_of self1 k = Some (RSub c1) \<and> same_shape c c1)"
  proof (intro allI impI)
    fix k c assume "map_of self k = Some (RSub c)"
    from override_individual_shape [OF whole(5) this]
    show "\<exists>c1. map_of self1 k = Some (RSub c1) \<and> same_shape c c1"
      by (elim exE conjE) (rule exI, rule conjI)
  qed
  ultimately show ?thesis
    by (intro exI [of _ self1] conjI whole(6))
next
  case (single name val subcfg_name arg_name subcfg val1 subcfg1)
  let ?self1 = "AList.update subcfg_name (RSub subcfg1) self"
  from single(4) have sub: "map_of self subcfg_name = Some (RSub subcfg)"
    by (simp add: get_subconfig_Inr)
  have m: "map_of ?self1 = (map_of self)(subcfg_name \<mapsto> RSub subcfg1)"
    by (simp add: update_conv')
  have sh: "same_shape subcfg subcfg1"
    using setattr_shape(1) [OF single(7) single(5)] .
  have "\<forall>k. (\<forall>c. map_of self k \<noteq> Some (RSub c)) \<longrightarrow> map_of ?self1 k = map_of self k"
  proof (intro allI impI)
    fix k assume "\<forall>c. map_of self k \<noteq> Some (RSub c)"
    with sub have "k \<noteq> subcfg_name" by auto
    then show "map_of ?self1 k = map_of self k" by (simp add: m)
  qed
  moreover have "\<forall>k c. map_of self k = Some (RSub c)
           \<longrightarrow> (\<exists>c1. map_of ?self1 k = Some (RSub c1) \<and> same_shape c c1)"
  proof (intro allI impI)
    fix k c assume kc: "map_of self k = Some (RSub c)"
    show "\<exists>c1. map_of ?self1 k = Some (RSub c1) \<and> same_shape c c1"
    proof (cases "k = subcfg_name")
      case True
      with kc sub have "c = subcfg" by simp
      with sh True show ?thesis by (simp add: m)
    next
      case False
      with kc show ?thesis by (simp add: m same_shape_refl)
    qed
  qed
  ultimately show ?thesis
    by (intro exI [of _ ?self1] conjI single(8))
qed

lemma cmdline_shape:
  assumes "override_with_cmdline_args w self cmd_args True = Inr self'"
    and "map_of self k = Some (RSub c)"
  shows "\<exists>c'. map_of self' k = Some (RSub c') \<and> same_shape c c'"
  using assms
proof (induction cmd_args arbitrary: self c)
  case Nil
  then show ?case by (simp add: same_shape_refl)
next
  case (Cons arg cmd_args)
  from cmdline_step_shape [OF Cons.prems(1)] obtain self1 where
    rec: "override_with_cmdline_args w self1 cmd_args True = Inr self'"
    and shape: "\<forall>k c. map_of self k = Some (RSub c)
           \<longrightarrow> (\<exists>c1. map_of self1 k = Some (RSub c1) \<and> same_shape c c1)"
    by blast
  from shape Cons.prems(2) obtain c1 where
    c1: "map_of self1 k = Some (RSub c1)" "same_shape c c1" by blast
  from Cons.IH [OF rec c1(1)] c1(2) show ?case by (auto intro: same_shape_trans)
qed

text \<open>
  The file part of \<^verbatim>\<open>__override_defaults\<close>, then the command line.
\<close>

lemma override_defaults_parts:
  assumes "override_defaults w self cmd_args = Inr (self', out)"
  shows "\<exists>self1. override_with_cmdline_args w self1 cmd_args True = Inr self'
      \<and> (\<forall>k. (\<forall>c. map_of self k \<noteq> Some (RSub c)) \<longrightarrow> map_of self1 k = map_of self k)
      \<and> (\<forall>k c. map_of self k = Some (RSub c)
           \<longrightarrow> (\<exists>c1. map_of self1 k = Some (RSub c1) \<and> same_shape c c1))
      \<and> (determine_config_path cmd_args = [] \<longrightarrow> self1 = self)"
proof -
  obtain p where p: "determine_config_path cmd_args = p" by simp
  show ?thesis
  proof (cases "p = []")
    case True
    with assms p have "override_with_cmdline_args w self cmd_args True = Inr self'"
      unfolding override_defaults_def Let_def by (auto simp add: and_then_Inr)
    then show ?thesis by (auto simp add: same_shape_refl)
  next
    case False
    with assms p obtain config1 self1 where
      fb: "override_with_filebased_args self config1 True = Inr self1"
      and cl: "override_with_cmdline_args w self1 cmd_args True = Inr self'"
      unfolding override_defaults_def Let_def by (auto simp add: and_then_Inr)
    have "\<forall>k. (\<forall>c. map_of self k \<noteq> Some (RSub c)) \<longrightarrow> map_of self1 k = map_of self k"
      using filebased_keeps [OF fb] by blast
    moreover have "\<forall>k c. map_of self k = Some (RSub c)
           \<longrightarrow> (\<exists>c1. map_of self1 k = Some (RSub c1) \<and> same_shape c c1)"
      using filebased_shape [OF fb] by blast
    ultimately show ?thesis using cl False p by blast
  qed
qed

end
